theory Spec2Isabelle
  imports Main
begin

section \<open>The npm states of salt/states/npm.py\<close>

text \<open>
  The module has three state functions, \<open>installed\<close>, \<open>removed\<close> and \<open>bootstrap\<close>.
  Each reads the two globals of a Salt state module, \<open>__salt__\<close> (the table of execution
  functions: \<open>npm.list\<close>, \<open>npm.install\<close>, \<open>npm.uninstall\<close>) and \<open>__opts__\<close> (of which only
  \<open>__opts__['test']\<close> is read), calls the execution functions with keyword arguments and
  returns the dictionary \<open>ret\<close>.

  The embedding makes the globals a parameter, records every call into \<open>__salt__\<close> with its
  keyword arguments in a trace, and returns the trace together with either the exception
  that left the function or the dictionary it returned. Strings are Python 2 byte strings
  (\<open>char list\<close>); dictionaries are association lists in insertion order with distinct keys.
\<close>

subsection \<open>Python values\<close>

datatype pyval =
    PNone
  | PBool bool
  | PInt int
  | PStr string
  | PList "pyval list"
  | PDict "(string \<times> pyval) list"

type_synonym pydict = "(string \<times> pyval) list"

text \<open>Truth value testing: \<open>None\<close>, \<open>False\<close>, zero and empty containers are false.\<close>

fun truthy :: "pyval \<Rightarrow> bool" where
  "truthy PNone = False"
| "truthy (PBool b) = b"
| "truthy (PInt i) = (i \<noteq> 0)"
| "truthy (PStr s) = (s \<noteq> [])"
| "truthy (PList xs) = (xs \<noteq> [])"
| "truthy (PDict d) = (d \<noteq> [])"

fun isinstance_list :: "pyval \<Rightarrow> bool" where
  "isinstance_list (PList xs) = True"
| "isinstance_list v = False"

fun isinstance_dict :: "pyval \<Rightarrow> bool" where
  "isinstance_dict (PDict d) = True"
| "isinstance_dict v = False"

fun isinstance_str :: "pyval \<Rightarrow> bool" where
  "isinstance_str (PStr s) = True"
| "isinstance_str v = False"

subsection \<open>Dictionaries\<close>

text \<open>\<open>d[k] = v\<close>: an existing key keeps its place, a new key goes to the end.\<close>

fun dict_set :: "(string \<times> 'v) list \<Rightarrow> string \<Rightarrow> 'v \<Rightarrow> (string \<times> 'v) list" where
  "dict_set [] k v = [(k, v)]"
| "dict_set ((k', v') # d) k v =
     (if k' = k then (k', v) # d else (k', v') # dict_set d k v)"

text \<open>\<open>d.get(k)\<close>, and \<open>k in d\<close> as \<open>dict_get d k \<noteq> None\<close>.\<close>

definition dict_get :: "(string \<times> 'v) list \<Rightarrow> string \<Rightarrow> 'v option" where
  "dict_get d k = map_of d k"

text \<open>\<open>dict(pairs)\<close>: the pairs are stored in order, a later pair overwrites an earlier one.\<close>

definition dict_of_pairs :: "(string \<times> 'v) list \<Rightarrow> (string \<times> 'v) list" where
  "dict_of_pairs ps = foldl (\<lambda>d (k, v). dict_set d k v) [] ps"

subsection \<open>String methods\<close>

text \<open>\<open>str.lower()\<close> on a byte string: the ASCII capitals, nothing else.\<close>

definition lower_char :: "char \<Rightarrow> char" where
  "lower_char c =
     (case map_of (zip ''ABCDEFGHIJKLMNOPQRSTUVWXYZ'' ''abcdefghijklmnopqrstuvwxyz'') c of
        Some l \<Rightarrow> l
      | None \<Rightarrow> c)"

definition lower :: "string \<Rightarrow> string" where
  "lower s = map lower_char s"

text \<open>\<open>str.strip()\<close>: space, tab, newline, vertical tab, form feed, carriage return.\<close>

definition is_space :: "char \<Rightarrow> bool" where
  "is_space c = (c \<in> set [CHR 0x20, CHR 0x09, CHR 0x0A, CHR 0x0B, CHR 0x0C, CHR 0x0D])"

definition strip :: "string \<Rightarrow> string" where
  "strip s = rev (dropWhile is_space (rev (dropWhile is_space s)))"

text \<open>\<open>s.partition(c)\<close> for a one-character separator: split at its first occurrence.\<close>

fun partition_str :: "char \<Rightarrow> string \<Rightarrow> string \<times> string \<times> string" where
  "partition_str c [] = ([], [], [])"
| "partition_str c (x # xs) =
     (if x = c then ([], [c], xs)
      else (case partition_str c xs of (h, s, t) \<Rightarrow> (x # h, s, t)))"

text \<open>\<open>sep.join(xs)\<close>.\<close>

fun join :: "string \<Rightarrow> string list \<Rightarrow> string" where
  "join sep [] = []"
| "join sep [x] = x"
| "join sep (x # y # ys) = x @ sep @ join sep (y # ys)"

text \<open>
  \<open>repr\<close> of a byte string, as \<open>{0!r}\<close> formats it: single quotes, unless the string has a
  single quote and no double quote; backslash and the quote escaped; tab, newline and
  carriage return by letter; every other byte below 0x20 or from 0x7f on as \<open>\xNN\<close>.
\<close>

definition hex_digit :: "nat \<Rightarrow> char" where
  "hex_digit n = ''0123456789abcdef'' ! (n mod 16)"

definition repr_char :: "char \<Rightarrow> char \<Rightarrow> string" where
  "repr_char q c =
     (if c = q \<or> c = CHR 0x5C then [CHR 0x5C, c]
      else if c = CHR 0x09 then [CHR 0x5C, CHR ''t'']
      else if c = CHR 0x0A then [CHR 0x5C, CHR ''n'']
      else if c = CHR 0x0D then [CHR 0x5C, CHR ''r'']
      else if (of_char c :: nat) < 32 \<or> 127 \<le> (of_char c :: nat)
        then [CHR 0x5C, CHR ''x'', hex_digit (of_char c div 16), hex_digit (of_char c)]
      else [c])"

definition repr :: "string \<Rightarrow> string" where
  "repr s =
     (let q = (if CHR 0x27 \<in> set s \<and> CHR 0x22 \<notin> set s then CHR 0x22 else CHR 0x27)
      in [q] @ concat (map (repr_char q) s) @ [q])"

subsection \<open>Exceptions, capability calls, globals\<close>

text \<open>
  The two exceptions of \<open>salt.exceptions\<close> the module imports, with their message; the
  \<open>KeyError\<close> of a subscript; \<open>NameError\<close> of an unbound local; any other exception.
\<close>

datatype exn =
    CommandExecutionError string
  | CommandNotFoundError string
  | KeyError string
  | NameError string
  | OtherError string

text \<open>\<open>except (CommandNotFoundError, CommandExecutionError) as err\<close>.\<close>

fun caught :: "exn \<Rightarrow> bool" where
  "caught (CommandExecutionError m) = True"
| "caught (CommandNotFoundError m) = True"
| "caught e = False"

text \<open>\<open>str(err)\<close>, as \<open>{1}\<close> formats the exception.\<close>

fun str_exn :: "exn \<Rightarrow> string" where
  "str_exn (CommandExecutionError m) = m"
| "str_exn (CommandNotFoundError m) = m"
| "str_exn (KeyError m) = repr m"
| "str_exn (NameError m) = m"
| "str_exn (OtherError m) = m"

text \<open>A call \<open>__salt__[cap](**kwargs)\<close>: the name of the function and what it was passed.\<close>

datatype call = Call (cap: string) (kwargs: pydict)

text \<open>
  What \<open>npm.list\<close> returns for a package: the module reads the key \<open>version\<close> only
  (\<open>None\<close> when the key is missing).
\<close>

record pkg_info =
  version :: "string option"

text \<open>
  \<open>__salt__\<close> and \<open>__opts__\<close>. An execution function gets its keyword arguments and
  either raises or returns; \<open>npm.list\<close> returns a dictionary from package names to
  \<open>pkg_info\<close>.
\<close>

record globals =
  salt_npm_list :: "pydict \<Rightarrow> exn + (string \<times> pkg_info) list"
  salt_npm_install :: "pydict \<Rightarrow> exn + pyval"
  salt_npm_uninstall :: "pydict \<Rightarrow> exn + pyval"
  opts_test :: bool

type_synonym outcome = "call list \<times> (exn + pydict)"

subsection \<open>installed\<close>

text \<open>\<open>ret = {'name': name, 'result': None, 'comment': '', 'changes': {}}\<close>.\<close>

definition new_ret :: "string \<Rightarrow> pydict" where
  "new_ret name =
     [(''name'', PStr name), (''result'', PNone), (''comment'', PStr ''''),
      (''changes'', PDict [])]"

text \<open>
  The loop over \<open>pkg_list\<close> (lines 108 to 134). The state is \<open>pkgs_satisfied\<close>,
  \<open>pkgs_to_install\<close> and the local \<open>pkg_name\<close>, which is unbound before the first
  iteration and read again after the loop. \<open>installed_pkgs[pkg_name]['version']\<close> raises
  \<open>KeyError\<close> when the record has no version.
\<close>

fun check_pkgs ::
  "(string \<times> pkg_info) list \<Rightarrow> bool \<Rightarrow> string list \<Rightarrow>
   string list \<times> string list \<times> string option \<Rightarrow>
   exn + (string list \<times> string list \<times> string option)" where
  "check_pkgs installed_pkgs force_reinstall [] st = Inr st"
| "check_pkgs installed_pkgs force_reinstall (pkg # rest) (pkgs_satisfied, pkgs_to_install, old) =
     (case partition_str (CHR ''@'') pkg of (h, s, pkg_ver) \<Rightarrow>
        (let pkg_name = lower (strip h) in
         if force_reinstall then
           check_pkgs installed_pkgs force_reinstall rest
             (pkgs_satisfied, pkgs_to_install @ [pkg], Some pkg_name)
         else
           (case dict_get installed_pkgs pkg_name of
              None \<Rightarrow>
                check_pkgs installed_pkgs force_reinstall rest
                  (pkgs_satisfied, pkgs_to_install @ [pkg], Some pkg_name)
            | Some info \<Rightarrow>
                (case version info of
                   None \<Rightarrow> Inl (KeyError ''version'')
                 | Some v \<Rightarrow>
                     (let installed_name_ver = pkg_name @ ''@'' @ v in
                      if pkg_ver \<noteq> [] then
                        (if version info \<noteq> Some pkg_ver then
                           check_pkgs installed_pkgs force_reinstall rest
                             (pkgs_satisfied, pkgs_to_install @ [pkg], Some pkg_name)
                         else
                           check_pkgs installed_pkgs force_reinstall rest
                             (pkgs_satisfied @ [installed_name_ver], pkgs_to_install,
                              Some pkg_name))
                      else
                        check_pkgs installed_pkgs force_reinstall rest
                          (pkgs_satisfied @ [installed_name_ver], pkgs_to_install,
                           Some pkg_name))))))"

text \<open>The comment \<open>'Package(s) {0!r} satisfied by {1}'\<close> of lines 147 and 155.\<close>

definition satisfied_msg :: "string list \<Rightarrow> string list \<Rightarrow> string" where
  "satisfied_msg pkg_list pkgs_satisfied =
     ''Package(s) '' @ repr (join '', '' pkg_list) @ '' satisfied by '' @
     join '', '' pkgs_satisfied"

text \<open>The dry-run branch, lines 136 to 151.\<close>

definition installed_test ::
  "pydict \<Rightarrow> string list \<Rightarrow> string list \<Rightarrow> string list \<Rightarrow> pydict" where
  "installed_test ret pkg_list pkgs_satisfied pkgs_to_install =
     (let ret = dict_set ret ''result'' PNone;
          comment_msg = [];
          (comment_msg, ret) =
            (if pkgs_to_install \<noteq> [] then
               (comment_msg @
                  [''NPM package(s) '' @ repr (join '', '' pkgs_to_install) @
                   '' are set to be installed''],
                dict_set ret ''changes''
                  (PDict [(''old'', PList []), (''new'', PList (map PStr pkgs_to_install))]))
             else (comment_msg, ret));
          comment_msg =
            (if pkgs_satisfied \<noteq> [] then
               comment_msg @ [satisfied_msg pkg_list pkgs_satisfied]
             else comment_msg)
      in dict_set ret ''comment'' (PStr (join ''. '' comment_msg)))"

text \<open>
  The install, lines 159 to 189: \<open>cmd_args\<close> gets \<open>pkgs\<close> when \<open>pkgs\<close> was given and the
  local \<open>pkg_name\<close> otherwise; the two imported exceptions are caught, any other leaves
  the function.
\<close>

definition install_cmd_args ::
  "string list option \<Rightarrow> pyval \<Rightarrow> pyval \<Rightarrow> pyval \<Rightarrow> pyval \<Rightarrow> string option \<Rightarrow>
   exn + pydict" where
  "install_cmd_args pkgs dir user registry env pkg_name =
     (let cmd_args =
            [(''dir'', dir), (''runas'', user), (''registry'', registry), (''env'', env)]
      in case pkgs of
           Some ps \<Rightarrow> Inr (dict_set cmd_args ''pkgs'' (PList (map PStr ps)))
         | None \<Rightarrow>
             (case pkg_name of
                None \<Rightarrow> Inl (NameError ''pkg_name'')
              | Some n \<Rightarrow> Inr (dict_set cmd_args ''pkg'' (PStr n))))"

definition installed_install ::
  "globals \<Rightarrow> pydict \<Rightarrow> call list \<Rightarrow> string list option \<Rightarrow> pyval \<Rightarrow> pyval \<Rightarrow> pyval \<Rightarrow> pyval \<Rightarrow>
   string list \<Rightarrow> string list \<Rightarrow> string option \<Rightarrow> outcome" where
  "installed_install g ret tr pkgs dir user registry env pkg_list pkgs_to_install pkg_name =
     (case install_cmd_args pkgs dir user registry env pkg_name of
        Inl e \<Rightarrow> (tr, Inl e)
      | Inr cmd_args \<Rightarrow>
          (let tr = tr @ [Call ''npm.install'' cmd_args] in
           case salt_npm_install g cmd_args of
             Inl err \<Rightarrow>
               (if caught err then
                  (tr, Inr (dict_set (dict_set ret ''result'' (PBool False)) ''comment''
                     (PStr (''Error installing '' @ repr (join '', '' pkg_list) @ '': '' @
                            str_exn err))))
                else (tr, Inl err))
           | Inr call \<Rightarrow>
               (if truthy call \<and> (isinstance_list call \<or> isinstance_dict call) then
                  (tr, Inr (dict_set (dict_set (dict_set ret ''result'' (PBool True))
                     ''changes''
                       (PDict [(''old'', PList []),
                               (''new'', PList (map PStr pkgs_to_install))]))
                     ''comment''
                       (PStr (''Package(s) '' @ repr (join '', '' pkgs_to_install) @
                              '' successfully installed''))))
                else
                  (tr, Inr (dict_set (dict_set ret ''result'' (PBool False)) ''comment''
                     (PStr (''Could not install package(s) '' @
                            repr (join '', '' pkg_list))))))))"

text \<open>
  Lines 103 and 104:
  \<open>dict((p.lower(), info) for p, info in list(installed_pkgs.items()))\<close>.
\<close>

definition lower_keys :: "(string \<times> pkg_info) list \<Rightarrow> (string \<times> pkg_info) list" where
  "lower_keys listed = dict_of_pairs (map (\<lambda>(p, info). (lower p, info)) listed)"

definition installed ::
  "globals \<Rightarrow> string \<Rightarrow> string list option \<Rightarrow> pyval \<Rightarrow> pyval \<Rightarrow> bool \<Rightarrow> pyval \<Rightarrow> pyval \<Rightarrow>
   outcome" where
  "installed g name pkgs dir user force_reinstall registry env =
     (let ret = new_ret name;
          pkg_list = (case pkgs of Some ps \<Rightarrow> ps | None \<Rightarrow> [name]);
          list_args = [(''dir'', dir), (''runas'', user), (''env'', env)];
          tr = [Call ''npm.list'' list_args]
      in case salt_npm_list g list_args of
           Inl err \<Rightarrow>
             (if caught err then
                (tr, Inr (dict_set (dict_set ret ''result'' (PBool False)) ''comment''
                   (PStr (''Error looking up '' @ repr name @ '': '' @ str_exn err))))
              else (tr, Inl err))
         | Inr listed \<Rightarrow>
             (let installed_pkgs = lower_keys listed
              in case check_pkgs installed_pkgs force_reinstall pkg_list ([], [], None) of
                   Inl e \<Rightarrow> (tr, Inl e)
                 | Inr (pkgs_satisfied, pkgs_to_install, pkg_name) \<Rightarrow>
                     if opts_test g then
                       (tr, Inr (installed_test ret pkg_list pkgs_satisfied pkgs_to_install))
                     else if pkgs_to_install = [] then
                       (tr, Inr (dict_set (dict_set ret ''result'' (PBool True)) ''comment''
                          (PStr (satisfied_msg pkg_list pkgs_satisfied))))
                     else
                       installed_install g ret tr pkgs dir user registry env pkg_list
                         pkgs_to_install pkg_name))"

subsection \<open>removed\<close>

text \<open>\<open>ret['changes'][name] = 'Removed'\<close>: a store into the dictionary under \<open>changes\<close>.\<close>

definition set_change :: "pydict \<Rightarrow> string \<Rightarrow> pyval \<Rightarrow> pydict" where
  "set_change ret k v =
     (case dict_get ret ''changes'' of
        Some (PDict ch) \<Rightarrow> dict_set ret ''changes'' (PDict (dict_set ch k v))
      | _ \<Rightarrow> ret)"

definition removed :: "globals \<Rightarrow> string \<Rightarrow> pyval \<Rightarrow> pyval \<Rightarrow> outcome" where
  "removed g name dir user =
     (let ret = new_ret name;
          list_args = [(''dir'', dir)];
          tr = [Call ''npm.list'' list_args]
      in case salt_npm_list g list_args of
           Inl err \<Rightarrow>
             (if caught err then
                (tr, Inr (dict_set (dict_set ret ''result'' (PBool False)) ''comment''
                   (PStr (''Error uninstalling '' @ repr name @ '': '' @ str_exn err))))
              else (tr, Inl err))
         | Inr installed_pkgs \<Rightarrow>
             if dict_get installed_pkgs name = None then
               (tr, Inr (dict_set (dict_set ret ''result'' (PBool True)) ''comment''
                  (PStr (''Package '' @ repr name @ '' is not installed''))))
             else if opts_test g then
               (tr, Inr (dict_set (dict_set ret ''result'' PNone) ''comment''
                  (PStr (''Package '' @ repr name @ '' is set to be removed''))))
             else
               (let un_args = [(''pkg'', PStr name), (''dir'', dir), (''runas'', user)];
                    tr = tr @ [Call ''npm.uninstall'' un_args]
                in case salt_npm_uninstall g un_args of
                     Inl err \<Rightarrow> (tr, Inl err)
                   | Inr r \<Rightarrow>
                       if truthy r then
                         (tr, Inr (dict_set
                            (set_change (dict_set ret ''result'' (PBool True)) name
                               (PStr ''Removed''))
                            ''comment''
                            (PStr (''Package '' @ repr name @ '' was successfully removed''))))
                       else
                         (tr, Inr (dict_set (dict_set ret ''result'' (PBool False)) ''comment''
                            (PStr (''Error removing package '' @ repr name))))))"

subsection \<open>bootstrap\<close>

text \<open>The function never reads \<open>__opts__\<close>.\<close>

definition bootstrap :: "globals \<Rightarrow> string \<Rightarrow> pyval \<Rightarrow> outcome" where
  "bootstrap g name user =
     (let ret = new_ret name;
          install_args = [(''dir'', PStr name), (''runas'', user), (''pkg'', PNone)];
          tr = [Call ''npm.install'' install_args]
      in case salt_npm_install g install_args of
           Inl err \<Rightarrow>
             (if caught err then
                (tr, Inr (dict_set (dict_set ret ''result'' (PBool False)) ''comment''
                   (PStr (''Error Bootstrapping '' @ repr name @ '': '' @ str_exn err))))
              else (tr, Inl err))
         | Inr call \<Rightarrow>
             if \<not> truthy call then
               (tr, Inr (dict_set (dict_set ret ''result'' (PBool True)) ''comment''
                  (PStr ''Directory is already bootstrapped'')))
             else if isinstance_str call then
               (tr, Inr (dict_set (dict_set ret ''result'' (PBool False)) ''comment''
                  (PStr ''Could not bootstrap directory'')))
             else
               (tr, Inr (dict_set (dict_set (dict_set ret ''result'' (PBool True)) ''changes''
                  (PDict [(name, PStr ''Bootstrapped'')])) ''comment''
                  (PStr ''Directory was successfully bootstrapped''))))"

subsection \<open>The result record and the scenarios\<close>

text \<open>
  A result record for \<open>name\<close>: the four keys \<open>name\<close>, \<open>result\<close>, \<open>comment\<close>, \<open>changes\<close> and
  no other, \<open>name\<close> holding the argument and \<open>result\<close> one of \<open>None\<close>, \<open>True\<close>, \<open>False\<close>.
\<close>

definition result_record :: "string \<Rightarrow> pydict \<Rightarrow> bool" where
  "result_record name ret =
     (map fst ret = [''name'', ''result'', ''comment'', ''changes''] \<and>
      dict_get ret ''name'' = Some (PStr name) \<and>
      dict_get ret ''result'' \<in> set [Some PNone, Some (PBool True), Some (PBool False)])"

text \<open>
  A spec that is already met by the installed records: its name, normalised as the loop
  does, is a key of the records, the record has a version, and the spec declares no
  version or exactly that one.
\<close>

definition spec_satisfied :: "(string \<times> pkg_info) list \<Rightarrow> string \<Rightarrow> bool" where
  "spec_satisfied installed_pkgs pkg =
     (case partition_str (CHR ''@'') pkg of (h, s, pkg_ver) \<Rightarrow>
        (case dict_get installed_pkgs (lower (strip h)) of
           None \<Rightarrow> False
         | Some info \<Rightarrow>
             (case version info of
                None \<Rightarrow> False
              | Some v \<Rightarrow> pkg_ver = [] \<or> v = pkg_ver)))"

text \<open>An execution function that returns (or raises) the same thing whatever it is passed.\<close>

definition returns :: "'r \<Rightarrow> pydict \<Rightarrow> 'r" where
  "returns r kw = r"

text \<open>
  The scenarios: \<open>npm.list\<close> returns the given records, \<open>npm.install\<close> returns a mapping,
  \<open>npm.uninstall\<close> succeeds.
\<close>

definition coffee_script :: "string \<Rightarrow> (string \<times> pkg_info) list" where
  "coffee_script ver = [(''coffee-script'', \<lparr>version = Some ver\<rparr>)]"

definition scenario :: "(string \<times> pkg_info) list \<Rightarrow> bool \<Rightarrow> globals" where
  "scenario listed test =
     \<lparr>salt_npm_list = returns (Inr listed),
      salt_npm_install = returns (Inr (PDict [(''coffee-script'', PStr ''1.0.1'')])),
      salt_npm_uninstall = returns (Inr (PBool True)),
      opts_test = test\<rparr>"

text \<open>The same, with an execution function that raises.\<close>

definition failing_list :: globals where
  "failing_list =
     (scenario [] False)
       \<lparr>salt_npm_list := returns (Inl (CommandNotFoundError ''npm: command not found''))\<rparr>"

definition failing_install :: globals where
  "failing_install =
     (scenario (coffee_script ''1.0.0'') False)
       \<lparr>salt_npm_install := returns (Inl (CommandExecutionError ''404 Not Found''))\<rparr>"

definition failing_uninstall :: globals where
  "failing_uninstall =
     (scenario (coffee_script ''1.0.0'') False)
       \<lparr>salt_npm_uninstall := returns (Inl (CommandExecutionError ''permission denied''))\<rparr>"

text \<open>The same, with an \<open>npm.uninstall\<close> that reports its failure by returning \<open>False\<close>.\<close>

definition refused_uninstall :: globals where
  "refused_uninstall =
     (scenario (coffee_script ''1.0.0'') False)
       \<lparr>salt_npm_uninstall := returns (Inr (PBool False))\<rparr>"

text \<open>The same, with an \<open>npm.install\<close> that could not parse the output of npm.\<close>

definition unparseable_install :: globals where
  "unparseable_install =
     (scenario [] False)\<lparr>salt_npm_install := returns (Inr (PStr ''unparseable output''))\<rparr>"

section \<open>Properties\<close>

subsection \<open>Dictionaries\<close>

lemma dict_get_dict_set:
  "dict_get (dict_set d k v) k' = (if k' = k then Some v else dict_get d k')"
  by (induction d) (auto simp: dict_get_def)

lemma keys_dict_set_present:
  "k \<in> fst ` set d \<Longrightarrow> map fst (dict_set d k v) = map fst d"
  by (induction d) force+

lemma keys_dict_set_known:
  "map fst d = ks \<Longrightarrow> k \<in> set ks \<Longrightarrow> map fst (dict_set d k v) = ks"
  using keys_dict_set_present [of k d v] by (metis list.set_map)

lemma keys_new_ret: "map fst (new_ret name) = [''name'', ''result'', ''comment'', ''changes'']"
  by (simp add: new_ret_def)

lemma result_record_new_ret: "result_record name (new_ret name)"
  by (simp add: result_record_def new_ret_def dict_get_def)

lemma result_record_set_result:
  "result_record name ret \<Longrightarrow> r \<in> {PNone, PBool True, PBool False} \<Longrightarrow>
   result_record name (dict_set ret ''result'' r)"
  by (auto simp: result_record_def dict_get_dict_set keys_dict_set_known)

lemma result_record_set_comment:
  "result_record name ret \<Longrightarrow> result_record name (dict_set ret ''comment'' c)"
  by (simp add: result_record_def dict_get_dict_set keys_dict_set_known)

lemma result_record_set_changes:
  "result_record name ret \<Longrightarrow> result_record name (dict_set ret ''changes'' c)"
  by (simp add: result_record_def dict_get_dict_set keys_dict_set_known)

lemma result_record_set_change:
  "result_record name ret \<Longrightarrow> result_record name (set_change ret k v)"
  by (simp add: set_change_def result_record_set_changes split: option.splits pyval.splits)

lemmas result_record_intros =
  result_record_new_ret result_record_set_result result_record_set_comment
  result_record_set_changes result_record_set_change

lemma result_record_installed_test:
  "result_record name ret \<Longrightarrow>
   result_record name (installed_test ret pkg_list pkgs_satisfied pkgs_to_install)"
  by (simp add: installed_test_def Let_def result_record_intros)

subsection \<open>Evaluation\<close>

text \<open>
  The definitions a closed instance of one of the state functions unfolds to.
\<close>

lemmas eval_defs =
  installed_def installed_install_def install_cmd_args_def installed_test_def removed_def
  bootstrap_def new_ret_def set_change_def satisfied_msg_def lower_keys_def dict_of_pairs_def
  dict_get_def lower_def lower_char_def strip_def is_space_def repr_def repr_char_def
  scenario_def coffee_script_def returns_def failing_list_def failing_install_def
  failing_uninstall_def refused_uninstall_def unparseable_install_def Let_def

subsection \<open>The result record\<close>

lemma result_record_installed_install:
  "result_record name ret \<Longrightarrow>
   snd (installed_install g ret tr pkgs dir user registry env pkg_list pkgs_to_install pkg_name)
     = Inr r \<Longrightarrow> result_record name r"
  by (auto simp: installed_install_def Let_def result_record_intros
           split: sum.splits if_splits)

lemma result_record_installed:
  "snd (installed g name pkgs dir user force_reinstall registry env) = Inr r \<Longrightarrow>
   result_record name r"
  by (auto simp: installed_def Let_def result_record_intros result_record_installed_test
           split: sum.splits if_splits prod.splits
           dest: result_record_installed_install [OF result_record_new_ret])

lemma result_record_removed:
  "snd (removed g name dir user) = Inr r \<Longrightarrow> result_record name r"
  by (auto simp: removed_def Let_def result_record_intros split: sum.splits if_splits)

lemma result_record_bootstrap:
  "snd (bootstrap g name user) = Inr r \<Longrightarrow> result_record name r"
  by (auto simp: bootstrap_def Let_def result_record_intros split: sum.splits if_splits)

text \<open>
  Claim C10. Whatever \<open>installed\<close>, \<open>removed\<close> and \<open>bootstrap\<close> return, on every path that
  returns, is a dictionary with exactly the four keys \<open>name\<close>, \<open>result\<close>, \<open>comment\<close>,
  \<open>changes\<close>, whose \<open>name\<close> is the \<open>name\<close> argument of the call and whose \<open>result\<close> is
  \<open>True\<close>, \<open>False\<close> or \<open>None\<close>.
\<close>

theorem result_record_shape:
  "(\<forall>r. snd (installed g name pkgs dir user force_reinstall registry env) = Inr r
        \<longrightarrow> result_record name r) \<and>
   (\<forall>r. snd (removed g name dir user) = Inr r \<longrightarrow> result_record name r) \<and>
   (\<forall>r. snd (bootstrap g name user) = Inr r \<longrightarrow> result_record name r)"
  using result_record_installed result_record_removed result_record_bootstrap by blast

text \<open>
  The three functions at work: an install, a dry-run removal, a bootstrap that npm
  answers with text.
\<close>

theorem result_record_shape_witness:
  "snd (installed (scenario (coffee_script ''1.0.0'') False) ''coffee-script@1.0.1'' None
          PNone PNone False PNone PNone) =
     Inr [(''name'', PStr ''coffee-script@1.0.1''), (''result'', PBool True),
          (''comment'', PStr (''Package(s) '' @ repr ''coffee-script@1.0.1'' @
                              '' successfully installed'')),
          (''changes'', PDict [(''old'', PList []),
                               (''new'', PList [PStr ''coffee-script@1.0.1''])])] \<and>
   result_record ''coffee-script@1.0.1''
     [(''name'', PStr ''coffee-script@1.0.1''), (''result'', PBool True),
      (''comment'', PStr (''Package(s) '' @ repr ''coffee-script@1.0.1'' @
                          '' successfully installed'')),
      (''changes'', PDict [(''old'', PList []),
                           (''new'', PList [PStr ''coffee-script@1.0.1''])])] \<and>
   snd (removed (scenario (coffee_script ''1.0.0'') True) ''coffee-script'' PNone PNone) =
     Inr [(''name'', PStr ''coffee-script''), (''result'', PNone),
          (''comment'', PStr (''Package '' @ repr ''coffee-script'' @ '' is set to be removed'')),
          (''changes'', PDict [])] \<and>
   result_record ''coffee-script''
     [(''name'', PStr ''coffee-script''), (''result'', PNone),
      (''comment'', PStr (''Package '' @ repr ''coffee-script'' @ '' is set to be removed'')),
      (''changes'', PDict [])] \<and>
   snd (bootstrap unparseable_install ''/proj'' PNone) =
     Inr [(''name'', PStr ''/proj''), (''result'', PBool False),
          (''comment'', PStr ''Could not bootstrap directory''),
          (''changes'', PDict [])] \<and>
   result_record ''/proj''
     [(''name'', PStr ''/proj''), (''result'', PBool False),
      (''comment'', PStr ''Could not bootstrap directory''),
      (''changes'', PDict [])]"
proof -
  have i: "snd (installed (scenario (coffee_script ''1.0.0'') False) ''coffee-script@1.0.1''
               None PNone PNone False PNone PNone) =
     Inr [(''name'', PStr ''coffee-script@1.0.1''), (''result'', PBool True),
          (''comment'', PStr (''Package(s) '' @ repr ''coffee-script@1.0.1'' @
                              '' successfully installed'')),
          (''changes'', PDict [(''old'', PList []),
                               (''new'', PList [PStr ''coffee-script@1.0.1''])])]"
    by (simp add: eval_defs)
  have r: "snd (removed (scenario (coffee_script ''1.0.0'') True) ''coffee-script''
               PNone PNone) =
     Inr [(''name'', PStr ''coffee-script''), (''result'', PNone),
          (''comment'', PStr (''Package '' @ repr ''coffee-script'' @ '' is set to be removed'')),
          (''changes'', PDict [])]"
    by (simp add: eval_defs)
  have b: "snd (bootstrap unparseable_install ''/proj'' PNone) =
     Inr [(''name'', PStr ''/proj''), (''result'', PBool False),
          (''comment'', PStr ''Could not bootstrap directory''),
          (''changes'', PDict [])]"
    by (simp add: eval_defs)
  from result_record_shape [THEN conjunct1, rule_format, OF i]
       result_record_shape [THEN conjunct2, THEN conjunct1, rule_format, OF r]
       result_record_shape [THEN conjunct2, THEN conjunct2, rule_format, OF b]
       i r b
  show ?thesis by simp
qed

subsection \<open>Dry-run\<close>

text \<open>
  Under \<open>__opts__['test']\<close>, \<open>installed\<close> and \<open>removed\<close> call \<open>npm.list\<close> and nothing
  else, and report \<open>result = None\<close> where they would change something.
\<close>

lemma dry_run_installed_install_free:
  assumes "opts_test g"
  shows "fst (installed g name pkgs dir user force_reinstall registry env) =
     [Call ''npm.list'' [(''dir'', dir), (''runas'', user), (''env'', env)]]"
  using assms by (simp add: installed_def Let_def split: sum.splits prod.splits)

lemma installed_test_result:
  "dict_get (installed_test ret pkg_list pkgs_satisfied pkgs_to_install) ''result'' = Some PNone"
  by (simp add: installed_test_def Let_def dict_get_dict_set)

lemma dry_run_installed_result:
  assumes "opts_test g"
    and "salt_npm_list g [(''dir'', dir), (''runas'', user), (''env'', env)] = Inr listed"
    and "snd (installed g name pkgs dir user force_reinstall registry env) = Inr r"
  shows "dict_get r ''result'' = Some PNone"
  using assms
  by (auto simp: installed_def installed_test_result Let_def split: sum.splits prod.splits)

lemma dry_run_removed:
  assumes "opts_test g"
  shows "fst (removed g name dir user) = [Call ''npm.list'' [(''dir'', dir)]]"
    and "salt_npm_list g [(''dir'', dir)] = Inr listed \<Longrightarrow> name \<in> fst ` set listed \<Longrightarrow>
         snd (removed g name dir user) =
           Inr [(''name'', PStr name), (''result'', PNone),
                (''comment'', PStr (''Package '' @ repr name @ '' is set to be removed'')),
                (''changes'', PDict [])]"
  using assms
  by (auto simp: removed_def new_ret_def Let_def dict_get_def map_of_eq_None_iff
           split: sum.splits)

text \<open>
  Claim C1. Under dry-run none of the three operations invokes \<open>npm.install\<close> or
  \<open>npm.uninstall\<close>, and \<open>result\<close> is \<open>None\<close> whenever a change would occur. \<open>bootstrap\<close>
  never reads the flag: with \<open>__opts__['test']\<close> set it calls \<open>npm.install\<close> on the
  directory and reports \<open>result = True\<close> with the change.
\<close>

theorem bootstrap_ignores_test:
  "opts_test (scenario [] True) \<and>
   bootstrap (scenario [] True) ''/proj'' PNone =
     ([Call ''npm.install'' [(''dir'', PStr ''/proj''), (''runas'', PNone), (''pkg'', PNone)]],
      Inr [(''name'', PStr ''/proj''), (''result'', PBool True),
           (''comment'', PStr ''Directory was successfully bootstrapped''),
           (''changes'', PDict [(''/proj'', PStr ''Bootstrapped'')])])"
  by (simp add: eval_defs)

subsection \<open>installed: specs that are already met\<close>

lemma check_pkgs_satisfied:
  "\<forall>pkg \<in> set ps. spec_satisfied ip pkg \<Longrightarrow>
   \<exists>sat' pn'. check_pkgs ip False ps (sat, ti, pn) = Inr (sat', ti, pn')"
proof (induction ps arbitrary: sat pn)
  case Nil
  then show ?case by simp
next
  case (Cons pkg ps)
  then show ?case
    by (auto simp: spec_satisfied_def Let_def split: prod.splits option.splits)
qed

text \<open>
  Claim C2. When every spec of the working list (\<open>pkgs\<close> if given, else the one name)
  has its name among the installed records and declares no version or exactly the
  recorded one, \<open>force_reinstall\<close> is false and dry-run is off, \<open>installed\<close> returns
  \<open>result = True\<close> with empty \<open>changes\<close>, and \<open>npm.list\<close> is the only call it makes.
\<close>

theorem installed_satisfied:
  assumes "salt_npm_list g [(''dir'', dir), (''runas'', user), (''env'', env)] = Inr listed"
    and "\<not> opts_test g"
    and "\<forall>pkg \<in> set (case pkgs of Some ps \<Rightarrow> ps | None \<Rightarrow> [name]).
           spec_satisfied (lower_keys listed) pkg"
  shows "\<exists>pkgs_satisfied.
     installed g name pkgs dir user False registry env =
       ([Call ''npm.list'' [(''dir'', dir), (''runas'', user), (''env'', env)]],
        Inr [(''name'', PStr name), (''result'', PBool True),
             (''comment'', PStr (satisfied_msg
                (case pkgs of Some ps \<Rightarrow> ps | None \<Rightarrow> [name]) pkgs_satisfied)),
             (''changes'', PDict [])])"
proof -
  from check_pkgs_satisfied [OF assms(3), of "[]" "[]" None]
  obtain sat' pn' where
    "check_pkgs (lower_keys listed) False (case pkgs of Some ps \<Rightarrow> ps | None \<Rightarrow> [name])
       ([], [], None) = Inr (sat', [], pn')"
    by blast
  with assms(1,2) show ?thesis
    by (auto simp: installed_def new_ret_def Let_def)
qed

text \<open>
  The scenario \<open>coffee-script@1.0.1\<close> with \<open>coffee-script\<close> installed at \<open>1.0.1\<close>: the
  comment names \<open>coffee-script@1.0.1\<close> as what satisfies the spec.
\<close>

theorem installed_satisfied_witness:
  "salt_npm_list (scenario (coffee_script ''1.0.1'') False)
     [(''dir'', PNone), (''runas'', PNone), (''env'', PNone)] = Inr (coffee_script ''1.0.1'') \<and>
   \<not> opts_test (scenario (coffee_script ''1.0.1'') False) \<and>
   spec_satisfied (lower_keys (coffee_script ''1.0.1'')) ''coffee-script@1.0.1'' \<and>
   fst (installed (scenario (coffee_script ''1.0.1'') False) ''coffee-script@1.0.1'' None
          PNone PNone False PNone PNone) =
     [Call ''npm.list'' [(''dir'', PNone), (''runas'', PNone), (''env'', PNone)]] \<and>
   snd (installed (scenario (coffee_script ''1.0.1'') False) ''coffee-script@1.0.1'' None
          PNone PNone False PNone PNone) =
     Inr [(''name'', PStr ''coffee-script@1.0.1''), (''result'', PBool True),
          (''comment'', PStr (''Package(s) '' @ repr ''coffee-script@1.0.1'' @
                              '' satisfied by coffee-script@1.0.1'')),
          (''changes'', PDict [])]"
proof -
  have l: "salt_npm_list (scenario (coffee_script ''1.0.1'') False)
     [(''dir'', PNone), (''runas'', PNone), (''env'', PNone)] = Inr (coffee_script ''1.0.1'')"
    by (simp add: scenario_def returns_def)
  have t: "\<not> opts_test (scenario (coffee_script ''1.0.1'') False)"
    by (simp add: scenario_def)
  have s: "spec_satisfied (lower_keys (coffee_script ''1.0.1'')) ''coffee-script@1.0.1''"
    by (simp add: spec_satisfied_def eval_defs)
  then have a: "\<forall>pkg \<in> set (case None of Some ps \<Rightarrow> ps | None \<Rightarrow> [''coffee-script@1.0.1'']).
           spec_satisfied (lower_keys (coffee_script ''1.0.1'')) pkg"
    by simp
  from installed_satisfied [OF l t a, of PNone] obtain pkgs_satisfied where
    "installed (scenario (coffee_script ''1.0.1'') False) ''coffee-script@1.0.1'' None
          PNone PNone False PNone PNone =
       ([Call ''npm.list'' [(''dir'', PNone), (''runas'', PNone), (''env'', PNone)]],
        Inr [(''name'', PStr ''coffee-script@1.0.1''), (''result'', PBool True),
             (''comment'', PStr (satisfied_msg [''coffee-script@1.0.1''] pkgs_satisfied)),
             (''changes'', PDict [])])"
    by auto
  then have f: "fst (installed (scenario (coffee_script ''1.0.1'') False) ''coffee-script@1.0.1''
          None PNone PNone False PNone PNone) =
     [Call ''npm.list'' [(''dir'', PNone), (''runas'', PNone), (''env'', PNone)]]"
    by simp
  have "snd (installed (scenario (coffee_script ''1.0.1'') False) ''coffee-script@1.0.1'' None
          PNone PNone False PNone PNone) =
     Inr [(''name'', PStr ''coffee-script@1.0.1''), (''result'', PBool True),
          (''comment'', PStr (''Package(s) '' @ repr ''coffee-script@1.0.1'' @
                              '' satisfied by coffee-script@1.0.1'')),
          (''changes'', PDict [])]"
    by (simp add: eval_defs)
  with l t s f show ?thesis by simp
qed

subsection \<open>installed: the package passed to npm.install\<close>

text \<open>
  Claim C3. For \<open>coffee-script@1.0.1\<close> with \<open>1.0.0\<close> installed, \<open>npm.install\<close> is invoked with
  \<open>pkg = 'coffee-script@1.0.1'\<close>, and a mapping returned makes the result \<open>True\<close> with
  changes \<open>{'old': [], 'new': ['coffee-script@1.0.1']}\<close>. The function reports exactly
  that, but what it passes as \<open>pkg\<close> is \<open>coffee-script\<close>: the version asked for never
  reaches npm.
\<close>

theorem installed_version_dropped:
  "installed (scenario (coffee_script ''1.0.0'') False) ''coffee-script@1.0.1'' None
     PNone PNone False PNone PNone =
     ([Call ''npm.list'' [(''dir'', PNone), (''runas'', PNone), (''env'', PNone)],
       Call ''npm.install''
         [(''dir'', PNone), (''runas'', PNone), (''registry'', PNone), (''env'', PNone),
          (''pkg'', PStr ''coffee-script'')]],
      Inr [(''name'', PStr ''coffee-script@1.0.1''), (''result'', PBool True),
           (''comment'', PStr (''Package(s) '' @ repr ''coffee-script@1.0.1'' @
                               '' successfully installed'')),
           (''changes'', PDict [(''old'', PList []),
                                (''new'', PList [PStr ''coffee-script@1.0.1''])])])"
  by (simp add: eval_defs)

text \<open>
  Given as \<open>pkgs\<close>, the same spec reaches \<open>npm.install\<close> with its version.
\<close>

lemma installed_pkgs_keeps_version:
  "fst (installed (scenario (coffee_script ''1.0.0'') False) ''coffee''
          (Some [''coffee-script@1.0.1'']) PNone PNone False PNone PNone) =
     [Call ''npm.list'' [(''dir'', PNone), (''runas'', PNone), (''env'', PNone)],
      Call ''npm.install''
        [(''dir'', PNone), (''runas'', PNone), (''registry'', PNone), (''env'', PNone),
         (''pkgs'', PList [PStr ''coffee-script@1.0.1''])]]"
  by (simp add: eval_defs)

lemma check_pkgs_single_name:
  "check_pkgs ip fr [name] ([], [], None) = Inr (sat, ti, pn) \<Longrightarrow>
   pn = Some (lower (strip (fst (partition_str (CHR ''@'') name))))"
  by (auto simp: Let_def split: prod.splits option.splits if_splits)

text \<open>
  Claim C4. Without \<open>pkgs\<close>, when something is to be installed, the \<open>pkg\<close> argument of
  \<open>npm.install\<close> is the local \<open>pkg_name\<close> of the last iteration of the loop (the part
  of the name before the first \<open>@\<close>, stripped and lower-cased), not the \<open>name\<close> the
  function was called with.
\<close>

theorem installed_single_pkg_argument:
  assumes "salt_npm_list g [(''dir'', dir), (''runas'', user), (''env'', env)] = Inr listed"
    and "check_pkgs (lower_keys listed) force_reinstall [name] ([], [], None)
           = Inr (pkgs_satisfied, pkgs_to_install, pkg_name)"
    and "pkgs_to_install \<noteq> []"
    and "\<not> opts_test g"
  shows "fst (installed g name None dir user force_reinstall registry env) =
     [Call ''npm.list'' [(''dir'', dir), (''runas'', user), (''env'', env)],
      Call ''npm.install''
        [(''dir'', dir), (''runas'', user), (''registry'', registry), (''env'', env),
         (''pkg'', PStr (lower (strip (fst (partition_str (CHR ''@'') name)))))]]"
  using assms check_pkgs_single_name [OF assms(2)]
  by (simp add: installed_def installed_install_def install_cmd_args_def Let_def
           split: sum.splits)

text \<open>
  For \<open>Coffee-Script@1.0.1\<close> the argument is \<open>coffee-script\<close>, which is not the name
  requested.
\<close>

theorem installed_single_pkg_argument_witness:
  "salt_npm_list (scenario (coffee_script ''1.0.0'') False)
     [(''dir'', PNone), (''runas'', PNone), (''env'', PNone)] = Inr (coffee_script ''1.0.0'') \<and>
   check_pkgs (lower_keys (coffee_script ''1.0.0'')) False [''Coffee-Script@1.0.1'']
     ([], [], None) = Inr ([], [''Coffee-Script@1.0.1''], Some ''coffee-script'') \<and>
   [''Coffee-Script@1.0.1''] \<noteq> [] \<and>
   \<not> opts_test (scenario (coffee_script ''1.0.0'') False) \<and>
   fst (installed (scenario (coffee_script ''1.0.0'') False) ''Coffee-Script@1.0.1'' None
          PNone PNone False PNone PNone) =
     [Call ''npm.list'' [(''dir'', PNone), (''runas'', PNone), (''env'', PNone)],
      Call ''npm.install''
        [(''dir'', PNone), (''runas'', PNone), (''registry'', PNone), (''env'', PNone),
         (''pkg'', PStr ''coffee-script'')]] \<and>
   ''coffee-script'' \<noteq> ''Coffee-Script@1.0.1''"
proof -
  have l: "salt_npm_list (scenario (coffee_script ''1.0.0'') False)
     [(''dir'', PNone), (''runas'', PNone), (''env'', PNone)] = Inr (coffee_script ''1.0.0'')"
    by (simp add: scenario_def returns_def)
  have c: "check_pkgs (lower_keys (coffee_script ''1.0.0'')) False [''Coffee-Script@1.0.1'']
     ([], [], None) = Inr ([], [''Coffee-Script@1.0.1''], Some ''coffee-script'')"
    by (simp add: eval_defs)
  have n: "[''Coffee-Script@1.0.1''] \<noteq> []"
    by simp
  have t: "\<not> opts_test (scenario (coffee_script ''1.0.0'') False)"
    by (simp add: scenario_def)
  have p: "lower (strip (fst (partition_str (CHR ''@'') ''Coffee-Script@1.0.1''))) =
           ''coffee-script''"
    by (simp add: eval_defs)
  from installed_single_pkg_argument [OF l c n t, of PNone] p l c t
  show ?thesis by simp
qed

subsection \<open>installed: what npm.install returns\<close>

text \<open>
  Claim C6. Once \<open>npm.install\<close> has returned, the result is \<open>True\<close>, with changes
  \<open>{'old': [], 'new': pkgs_to_install}\<close>, exactly when the value returned is a
  non-empty list or a non-empty dictionary; any other value gives \<open>result = False\<close>
  and the comment \<open>Could not install package(s) ...\<close>.
\<close>

theorem installed_install_outcome:
  assumes "salt_npm_list g [(''dir'', dir), (''runas'', user), (''env'', env)] = Inr listed"
    and "check_pkgs (lower_keys listed) force_reinstall
           (case pkgs of Some ps \<Rightarrow> ps | None \<Rightarrow> [name]) ([], [], None)
           = Inr (pkgs_satisfied, pkgs_to_install, pkg_name)"
    and "pkgs_to_install \<noteq> []"
    and "\<not> opts_test g"
    and "install_cmd_args pkgs dir user registry env pkg_name = Inr cmd_args"
    and "salt_npm_install g cmd_args = Inr call"
  shows "installed g name pkgs dir user force_reinstall registry env =
     ([Call ''npm.list'' [(''dir'', dir), (''runas'', user), (''env'', env)],
       Call ''npm.install'' cmd_args],
      Inr (if truthy call \<and> (isinstance_list call \<or> isinstance_dict call) then
             [(''name'', PStr name), (''result'', PBool True),
              (''comment'', PStr (''Package(s) '' @ repr (join '', '' pkgs_to_install) @
                                  '' successfully installed'')),
              (''changes'', PDict [(''old'', PList []),
                                   (''new'', PList (map PStr pkgs_to_install))])]
           else
             [(''name'', PStr name), (''result'', PBool False),
              (''comment'', PStr (''Could not install package(s) '' @
                 repr (join '', '' (case pkgs of Some ps \<Rightarrow> ps | None \<Rightarrow> [name])))),
              (''changes'', PDict [])]))"
  using assms by (simp add: installed_def installed_install_def new_ret_def Let_def)

text \<open>
  Two specs given as \<open>pkgs\<close>, one at another version and one not installed.
\<close>

theorem installed_install_outcome_witness:
  "salt_npm_list (scenario (coffee_script ''1.0.0'') False)
     [(''dir'', PNone), (''runas'', PNone), (''env'', PNone)] = Inr (coffee_script ''1.0.0'') \<and>
   check_pkgs (lower_keys (coffee_script ''1.0.0'')) False
     [''coffee-script@1.0.1'', ''Grunt''] ([], [], None) =
     Inr ([], [''coffee-script@1.0.1'', ''Grunt''], Some ''grunt'') \<and>
   \<not> opts_test (scenario (coffee_script ''1.0.0'') False) \<and>
   install_cmd_args (Some [''coffee-script@1.0.1'', ''Grunt'']) PNone PNone PNone PNone
     (Some ''grunt'') =
     Inr [(''dir'', PNone), (''runas'', PNone), (''registry'', PNone), (''env'', PNone),
          (''pkgs'', PList [PStr ''coffee-script@1.0.1'', PStr ''Grunt''])] \<and>
   salt_npm_install (scenario (coffee_script ''1.0.0'') False)
     [(''dir'', PNone), (''runas'', PNone), (''registry'', PNone), (''env'', PNone),
      (''pkgs'', PList [PStr ''coffee-script@1.0.1'', PStr ''Grunt''])] =
     Inr (PDict [(''coffee-script'', PStr ''1.0.1'')]) \<and>
   installed (scenario (coffee_script ''1.0.0'') False) ''tools''
     (Some [''coffee-script@1.0.1'', ''Grunt'']) PNone PNone False PNone PNone =
     ([Call ''npm.list'' [(''dir'', PNone), (''runas'', PNone), (''env'', PNone)],
       Call ''npm.install''
         [(''dir'', PNone), (''runas'', PNone), (''registry'', PNone), (''env'', PNone),
          (''pkgs'', PList [PStr ''coffee-script@1.0.1'', PStr ''Grunt''])]],
      Inr [(''name'', PStr ''tools''), (''result'', PBool True),
           (''comment'', PStr (''Package(s) '' @ repr ''coffee-script@1.0.1, Grunt'' @
                               '' successfully installed'')),
           (''changes'', PDict [(''old'', PList []),
                                (''new'', PList [PStr ''coffee-script@1.0.1'',
                                                 PStr ''Grunt''])])])"
proof -
  have l: "salt_npm_list (scenario (coffee_script ''1.0.0'') False)
     [(''dir'', PNone), (''runas'', PNone), (''env'', PNone)] = Inr (coffee_script ''1.0.0'')"
    by (simp add: scenario_def returns_def)
  have c: "check_pkgs (lower_keys (coffee_script ''1.0.0'')) False
     (case Some [''coffee-script@1.0.1'', ''Grunt''] of Some ps \<Rightarrow> ps | None \<Rightarrow> [''tools''])
     ([], [], None) =
     Inr ([], [''coffee-script@1.0.1'', ''Grunt''], Some ''grunt'')"
    by (simp add: eval_defs)
  have n: "[''coffee-script@1.0.1'', ''Grunt''] \<noteq> []"
    by simp
  have t: "\<not> opts_test (scenario (coffee_script ''1.0.0'') False)"
    by (simp add: scenario_def)
  have a: "install_cmd_args (Some [''coffee-script@1.0.1'', ''Grunt'']) PNone PNone PNone PNone
     (Some ''grunt'') =
     Inr [(''dir'', PNone), (''runas'', PNone), (''registry'', PNone), (''env'', PNone),
          (''pkgs'', PList [PStr ''coffee-script@1.0.1'', PStr ''Grunt''])]"
    by (simp add: install_cmd_args_def)
  have i: "salt_npm_install (scenario (coffee_script ''1.0.0'') False)
     [(''dir'', PNone), (''runas'', PNone), (''registry'', PNone), (''env'', PNone),
      (''pkgs'', PList [PStr ''coffee-script@1.0.1'', PStr ''Grunt''])] =
     Inr (PDict [(''coffee-script'', PStr ''1.0.1'')])"
    by (simp add: scenario_def returns_def)
  from installed_install_outcome [OF l c n t a i] l c t a i
  show ?thesis by simp
qed

subsection \<open>Exceptions of the execution functions\<close>

text \<open>
  Claim C5, as the code has it. At the call sites of \<open>npm.list\<close> (in \<open>installed\<close> and
  \<open>removed\<close>) and of \<open>npm.install\<close> (in \<open>installed\<close> and \<open>bootstrap\<close>), a
  \<open>CommandNotFoundError\<close> or \<open>CommandExecutionError\<close> raised by the execution function
  is caught: the operation returns \<open>result = False\<close> with the text of the error at the
  end of the comment. The call of \<open>npm.uninstall\<close> in \<open>removed\<close> reports a failure
  through its return value: when it returns a false value, \<open>removed\<close> returns
  \<open>result = False\<close> with the comment \<open>Error removing package ...\<close> and no changes.
\<close>

theorem guarded_capability_errors:
  assumes "caught err"
  shows
    "(salt_npm_list g [(''dir'', dir), (''runas'', user), (''env'', env)] = Inl err \<longrightarrow>
      installed g name pkgs dir user force_reinstall registry env =
        ([Call ''npm.list'' [(''dir'', dir), (''runas'', user), (''env'', env)]],
         Inr [(''name'', PStr name), (''result'', PBool False),
              (''comment'', PStr (''Error looking up '' @ repr name @ '': '' @ str_exn err)),
              (''changes'', PDict [])])) \<and>
     (salt_npm_list g [(''dir'', dir), (''runas'', user), (''env'', env)] = Inr listed \<and>
      check_pkgs (lower_keys listed) force_reinstall
        (case pkgs of Some ps \<Rightarrow> ps | None \<Rightarrow> [name]) ([], [], None)
        = Inr (pkgs_satisfied, pkgs_to_install, pkg_name) \<and>
      pkgs_to_install \<noteq> [] \<and> \<not> opts_test g \<and>
      install_cmd_args pkgs dir user registry env pkg_name = Inr cmd_args \<and>
      salt_npm_install g cmd_args = Inl err \<longrightarrow>
      installed g name pkgs dir user force_reinstall registry env =
        ([Call ''npm.list'' [(''dir'', dir), (''runas'', user), (''env'', env)],
          Call ''npm.install'' cmd_args],
         Inr [(''name'', PStr name), (''result'', PBool False),
              (''comment'', PStr (''Error installing '' @
                 repr (join '', '' (case pkgs of Some ps \<Rightarrow> ps | None \<Rightarrow> [name])) @
                 '': '' @ str_exn err)),
              (''changes'', PDict [])])) \<and>
     (salt_npm_list g [(''dir'', dir)] = Inl err \<longrightarrow>
      removed g name dir user =
        ([Call ''npm.list'' [(''dir'', dir)]],
         Inr [(''name'', PStr name), (''result'', PBool False),
              (''comment'', PStr (''Error uninstalling '' @ repr name @ '': '' @ str_exn err)),
              (''changes'', PDict [])])) \<and>
     (salt_npm_install g [(''dir'', PStr name), (''runas'', user), (''pkg'', PNone)] = Inl err \<longrightarrow>
      bootstrap g name user =
        ([Call ''npm.install'' [(''dir'', PStr name), (''runas'', user), (''pkg'', PNone)]],
         Inr [(''name'', PStr name), (''result'', PBool False),
              (''comment'', PStr (''Error Bootstrapping '' @ repr name @ '': '' @ str_exn err)),
              (''changes'', PDict [])])) \<and>
     (salt_npm_list g [(''dir'', dir)] = Inr listed' \<and> name \<in> fst ` set listed' \<and>
      \<not> opts_test g \<and>
      salt_npm_uninstall g [(''pkg'', PStr name), (''dir'', dir), (''runas'', user)] = Inr r \<and>
      \<not> truthy r \<longrightarrow>
      removed g name dir user =
        ([Call ''npm.list'' [(''dir'', dir)],
          Call ''npm.uninstall'' [(''pkg'', PStr name), (''dir'', dir), (''runas'', user)]],
         Inr [(''name'', PStr name), (''result'', PBool False),
              (''comment'', PStr (''Error removing package '' @ repr name)),
              (''changes'', PDict [])]))"
proof (intro conjI impI)
  assume "salt_npm_list g [(''dir'', dir), (''runas'', user), (''env'', env)] = Inl err"
  with assms show "installed g name pkgs dir user force_reinstall registry env =
        ([Call ''npm.list'' [(''dir'', dir), (''runas'', user), (''env'', env)]],
         Inr [(''name'', PStr name), (''result'', PBool False),
              (''comment'', PStr (''Error looking up '' @ repr name @ '': '' @ str_exn err)),
              (''changes'', PDict [])])"
    by (simp add: installed_def new_ret_def Let_def)
next
  assume "salt_npm_list g [(''dir'', dir), (''runas'', user), (''env'', env)] = Inr listed \<and>
      check_pkgs (lower_keys listed) force_reinstall
        (case pkgs of Some ps \<Rightarrow> ps | None \<Rightarrow> [name]) ([], [], None)
        = Inr (pkgs_satisfied, pkgs_to_install, pkg_name) \<and>
      pkgs_to_install \<noteq> [] \<and> \<not> opts_test g \<and>
      install_cmd_args pkgs dir user registry env pkg_name = Inr cmd_args \<and>
      salt_npm_install g cmd_args = Inl err"
  with assms show "installed g name pkgs dir user force_reinstall registry env =
        ([Call ''npm.list'' [(''dir'', dir), (''runas'', user), (''env'', env)],
          Call ''npm.install'' cmd_args],
         Inr [(''name'', PStr name), (''result'', PBool False),
              (''comment'', PStr (''Error installing '' @
                 repr (join '', '' (case pkgs of Some ps \<Rightarrow> ps | None \<Rightarrow> [name])) @
                 '': '' @ str_exn err)),
              (''changes'', PDict [])])"
    by (simp add: installed_def installed_install_def new_ret_def Let_def)
next
  assume "salt_npm_list g [(''dir'', dir)] = Inl err"
  with assms show "removed g name dir user =
        ([Call ''npm.list'' [(''dir'', dir)]],
         Inr [(''name'', PStr name), (''result'', PBool False),
              (''comment'', PStr (''Error uninstalling '' @ repr name @ '': '' @ str_exn err)),
              (''changes'', PDict [])])"
    by (simp add: removed_def new_ret_def Let_def)
next
  assume "salt_npm_install g [(''dir'', PStr name), (''runas'', user), (''pkg'', PNone)] = Inl err"
  with assms show "bootstrap g name user =
        ([Call ''npm.install'' [(''dir'', PStr name), (''runas'', user), (''pkg'', PNone)]],
         Inr [(''name'', PStr name), (''result'', PBool False),
              (''comment'', PStr (''Error Bootstrapping '' @ repr name @ '': '' @ str_exn err)),
              (''changes'', PDict [])])"
    by (simp add: bootstrap_def new_ret_def Let_def)
next
  assume h: "salt_npm_list g [(''dir'', dir)] = Inr listed' \<and> name \<in> fst ` set listed' \<and>
      \<not> opts_test g \<and>
      salt_npm_uninstall g [(''pkg'', PStr name), (''dir'', dir), (''runas'', user)] = Inr r \<and>
      \<not> truthy r"
  then have "dict_get listed' name \<noteq> None"
    by (simp add: dict_get_def map_of_eq_None_iff)
  with h show "removed g name dir user =
        ([Call ''npm.list'' [(''dir'', dir)],
          Call ''npm.uninstall'' [(''pkg'', PStr name), (''dir'', dir), (''runas'', user)]],
         Inr [(''name'', PStr name), (''result'', PBool False),
              (''comment'', PStr (''Error removing package '' @ repr name)),
              (''changes'', PDict [])])"
    by (simp add: removed_def new_ret_def Let_def)
qed

text \<open>
  An \<open>npm.list\<close> that is not found, under \<open>installed\<close> and \<open>removed\<close>; an
  \<open>npm.install\<close> that fails, under \<open>installed\<close> and \<open>bootstrap\<close>; an
  \<open>npm.uninstall\<close> that returns \<open>False\<close>.
\<close>

theorem guarded_capability_errors_witness:
  "caught (CommandNotFoundError ''npm: command not found'') \<and>
   caught (CommandExecutionError ''404 Not Found'') \<and>
   installed failing_list ''coffee-script'' None PNone PNone False PNone PNone =
     ([Call ''npm.list'' [(''dir'', PNone), (''runas'', PNone), (''env'', PNone)]],
      Inr [(''name'', PStr ''coffee-script''), (''result'', PBool False),
           (''comment'', PStr (''Error looking up '' @ repr ''coffee-script'' @
                               '': npm: command not found'')),
           (''changes'', PDict [])]) \<and>
   installed failing_install ''coffee-script@1.0.1'' None PNone PNone False PNone PNone =
     ([Call ''npm.list'' [(''dir'', PNone), (''runas'', PNone), (''env'', PNone)],
       Call ''npm.install''
         [(''dir'', PNone), (''runas'', PNone), (''registry'', PNone), (''env'', PNone),
          (''pkg'', PStr ''coffee-script'')]],
      Inr [(''name'', PStr ''coffee-script@1.0.1''), (''result'', PBool False),
           (''comment'', PStr (''Error installing '' @ repr ''coffee-script@1.0.1'' @
                               '': 404 Not Found'')),
           (''changes'', PDict [])]) \<and>
   removed failing_list ''coffee-script'' PNone PNone =
     ([Call ''npm.list'' [(''dir'', PNone)]],
      Inr [(''name'', PStr ''coffee-script''), (''result'', PBool False),
           (''comment'', PStr (''Error uninstalling '' @ repr ''coffee-script'' @
                               '': npm: command not found'')),
           (''changes'', PDict [])]) \<and>
   bootstrap failing_install ''/proj'' PNone =
     ([Call ''npm.install'' [(''dir'', PStr ''/proj''), (''runas'', PNone), (''pkg'', PNone)]],
      Inr [(''name'', PStr ''/proj''), (''result'', PBool False),
           (''comment'', PStr (''Error Bootstrapping '' @ repr ''/proj'' @
                               '': 404 Not Found'')),
           (''changes'', PDict [])]) \<and>
   salt_npm_uninstall refused_uninstall
     [(''pkg'', PStr ''coffee-script''), (''dir'', PNone), (''runas'', PNone)] =
     Inr (PBool False) \<and>
   \<not> truthy (PBool False) \<and>
   removed refused_uninstall ''coffee-script'' PNone PNone =
     ([Call ''npm.list'' [(''dir'', PNone)],
       Call ''npm.uninstall''
         [(''pkg'', PStr ''coffee-script''), (''dir'', PNone), (''runas'', PNone)]],
      Inr [(''name'', PStr ''coffee-script''), (''result'', PBool False),
           (''comment'', PStr (''Error removing package '' @ repr ''coffee-script'')),
           (''changes'', PDict [])])"
proof -
  have cl: "caught (CommandNotFoundError ''npm: command not found'')"
    and ci: "caught (CommandExecutionError ''404 Not Found'')"
    by simp_all
  have l1: "salt_npm_list failing_list
      [(''dir'', PNone), (''runas'', PNone), (''env'', PNone)] =
      Inl (CommandNotFoundError ''npm: command not found'')"
    and l3: "salt_npm_list failing_list [(''dir'', PNone)] =
      Inl (CommandNotFoundError ''npm: command not found'')"
    by (simp_all add: failing_list_def scenario_def returns_def)
  have h2: "salt_npm_list failing_install
        [(''dir'', PNone), (''runas'', PNone), (''env'', PNone)] =
        Inr (coffee_script ''1.0.0'') \<and>
      check_pkgs (lower_keys (coffee_script ''1.0.0'')) False
        (case None of Some ps \<Rightarrow> ps | None \<Rightarrow> [''coffee-script@1.0.1'']) ([], [], None)
        = Inr ([], [''coffee-script@1.0.1''], Some ''coffee-script'') \<and>
      [''coffee-script@1.0.1''] \<noteq> [] \<and> \<not> opts_test failing_install \<and>
      install_cmd_args None PNone PNone PNone PNone (Some ''coffee-script'') =
        Inr [(''dir'', PNone), (''runas'', PNone), (''registry'', PNone), (''env'', PNone),
             (''pkg'', PStr ''coffee-script'')] \<and>
      salt_npm_install failing_install
        [(''dir'', PNone), (''runas'', PNone), (''registry'', PNone), (''env'', PNone),
         (''pkg'', PStr ''coffee-script'')] = Inl (CommandExecutionError ''404 Not Found'')"
    by (simp add: eval_defs)
  have h4: "salt_npm_install failing_install
      [(''dir'', PStr ''/proj''), (''runas'', PNone), (''pkg'', PNone)] =
      Inl (CommandExecutionError ''404 Not Found'')"
    by (simp add: failing_install_def scenario_def returns_def)
  have u: "salt_npm_uninstall refused_uninstall
      [(''pkg'', PStr ''coffee-script''), (''dir'', PNone), (''runas'', PNone)] =
      Inr (PBool False)"
    by (simp add: refused_uninstall_def scenario_def returns_def)
  have h5: "salt_npm_list refused_uninstall [(''dir'', PNone)] =
        Inr (coffee_script ''1.0.0'') \<and>
      ''coffee-script'' \<in> fst ` set (coffee_script ''1.0.0'') \<and>
      \<not> opts_test refused_uninstall \<and>
      salt_npm_uninstall refused_uninstall
        [(''pkg'', PStr ''coffee-script''), (''dir'', PNone), (''runas'', PNone)] =
        Inr (PBool False) \<and>
      \<not> truthy (PBool False)"
    by (simp add: refused_uninstall_def scenario_def returns_def coffee_script_def)
  note a = guarded_capability_errors [OF cl]
  note b = guarded_capability_errors [OF ci]
  from a [THEN conjunct1, rule_format, OF l1]
       b [THEN conjunct2, THEN conjunct1, rule_format, OF h2]
       a [THEN conjunct2, THEN conjunct2, THEN conjunct1, rule_format, OF l3]
       b [THEN conjunct2, THEN conjunct2, THEN conjunct2, THEN conjunct1, rule_format, OF h4]
       b [THEN conjunct2, THEN conjunct2, THEN conjunct2, THEN conjunct2, rule_format, OF h5]
       cl ci u
  show ?thesis by simp
qed

text \<open>
  The claim as stated, for every call site, fails at \<open>npm.uninstall\<close>: a
  \<open>CommandExecutionError\<close> raised there leaves \<open>removed\<close>.
\<close>

theorem uninstall_error_propagates:
  "caught (CommandExecutionError ''permission denied'') \<and>
   removed failing_uninstall ''coffee-script'' PNone PNone =
     ([Call ''npm.list'' [(''dir'', PNone)],
       Call ''npm.uninstall''
         [(''pkg'', PStr ''coffee-script''), (''dir'', PNone), (''runas'', PNone)]],
      Inl (CommandExecutionError ''permission denied''))"
  by (simp add: eval_defs)

subsection \<open>removed\<close>

lemma removed_not_a_key:
  assumes "salt_npm_list g [(''dir'', dir)] = Inr listed"
    and "name \<notin> fst ` set listed"
  shows "removed g name dir user =
     ([Call ''npm.list'' [(''dir'', dir)]],
      Inr [(''name'', PStr name), (''result'', PBool True),
           (''comment'', PStr (''Package '' @ repr name @ '' is not installed'')),
           (''changes'', PDict [])])"
  using assms by (simp add: removed_def new_ret_def dict_get_def map_of_eq_None_iff)

text \<open>
  Claim C8. For a name that is not a key of what \<open>npm.list\<close> returned, \<open>removed\<close>
  returns \<open>result = True\<close> with the comment \<open>Package ... is not installed\<close> and empty
  changes, and never calls \<open>npm.uninstall\<close>.
\<close>

theorem removed_absent:
  assumes "salt_npm_list g [(''dir'', dir)] = Inr listed"
    and "name \<notin> fst ` set listed"
  shows "removed g name dir user =
     ([Call ''npm.list'' [(''dir'', dir)]],
      Inr [(''name'', PStr name), (''result'', PBool True),
           (''comment'', PStr (''Package '' @ repr name @ '' is not installed'')),
           (''changes'', PDict [])])"
  using assms by (rule removed_not_a_key)

theorem removed_absent_witness:
  "salt_npm_list (scenario [] False) [(''dir'', PNone)] = Inr [] \<and>
   ''coffee-script'' \<notin> fst ` set ([] :: (string \<times> pkg_info) list) \<and>
   removed (scenario [] False) ''coffee-script'' PNone PNone =
     ([Call ''npm.list'' [(''dir'', PNone)]],
      Inr [(''name'', PStr ''coffee-script''), (''result'', PBool True),
           (''comment'', PStr (''Package '' @ repr ''coffee-script'' @ '' is not installed'')),
           (''changes'', PDict [])])"
proof -
  have l: "salt_npm_list (scenario [] False) [(''dir'', PNone)] = Inr []"
    by (simp add: scenario_def returns_def)
  have a: "''coffee-script'' \<notin> fst ` set ([] :: (string \<times> pkg_info) list)"
    by simp
  from removed_absent [OF l a, of PNone] l a show ?thesis by simp
qed

lemma removed_list_calls:
  "filter (\<lambda>c. cap c = ''npm.list'') (fst (removed g name dir user)) =
     [Call ''npm.list'' [(''dir'', dir)]]"
  by (simp add: removed_def Let_def split: sum.splits)

lemma installed_install_list_calls:
  "filter (\<lambda>c. cap c = ''npm.list'')
     (fst (installed_install g ret tr pkgs dir user registry env pkg_list ti pn)) =
   filter (\<lambda>c. cap c = ''npm.list'') tr"
  by (simp add: installed_install_def Let_def split: sum.splits)

lemma installed_list_calls:
  "filter (\<lambda>c. cap c = ''npm.list'')
     (fst (installed g name pkgs dir user force_reinstall registry env)) =
     [Call ''npm.list'' [(''dir'', dir), (''runas'', user), (''env'', env)]]"
  by (simp add: installed_def Let_def installed_install_list_calls
           split: sum.splits prod.splits)

lemma removed_present:
  assumes "salt_npm_list g [(''dir'', dir)] = Inr listed"
    and "name \<in> fst ` set listed"
  shows "removed g name dir user \<noteq>
     ([Call ''npm.list'' [(''dir'', dir)]],
      Inr [(''name'', PStr name), (''result'', PBool True),
           (''comment'', PStr (''Package '' @ repr name @ '' is not installed'')),
           (''changes'', PDict [])])"
proof -
  from assms(2) have "dict_get listed name \<noteq> None"
    by (simp add: dict_get_def map_of_eq_None_iff)
  with assms(1) show ?thesis
    by (simp add: removed_def new_ret_def Let_def split: sum.splits)
qed

text \<open>
  Claim C7. \<open>removed\<close> queries \<open>npm.list\<close> with \<open>dir\<close> alone, where \<open>installed\<close> passes
  \<open>dir\<close>, \<open>runas\<close> and \<open>env\<close>; and it takes the package as absent exactly when the
  name, as it was given, is not a key of the records returned.
\<close>

theorem removed_listing_asymmetry:
  "filter (\<lambda>c. cap c = ''npm.list'') (fst (removed g name dir user)) =
     [Call ''npm.list'' [(''dir'', dir)]] \<and>
   filter (\<lambda>c. cap c = ''npm.list'')
     (fst (installed g name pkgs dir user force_reinstall registry env)) =
     [Call ''npm.list'' [(''dir'', dir), (''runas'', user), (''env'', env)]] \<and>
   (salt_npm_list g [(''dir'', dir)] = Inr listed \<longrightarrow>
      (name \<notin> fst ` set listed) =
      (removed g name dir user =
         ([Call ''npm.list'' [(''dir'', dir)]],
          Inr [(''name'', PStr name), (''result'', PBool True),
               (''comment'', PStr (''Package '' @ repr name @ '' is not installed'')),
               (''changes'', PDict [])])))"
proof (intro conjI impI)
  show "filter (\<lambda>c. cap c = ''npm.list'') (fst (removed g name dir user)) =
     [Call ''npm.list'' [(''dir'', dir)]]"
    by (rule removed_list_calls)
  show "filter (\<lambda>c. cap c = ''npm.list'')
     (fst (installed g name pkgs dir user force_reinstall registry env)) =
     [Call ''npm.list'' [(''dir'', dir), (''runas'', user), (''env'', env)]]"
    by (rule installed_list_calls)
next
  assume listed: "salt_npm_list g [(''dir'', dir)] = Inr listed"
  show "(name \<notin> fst ` set listed) =
      (removed g name dir user =
         ([Call ''npm.list'' [(''dir'', dir)]],
          Inr [(''name'', PStr name), (''result'', PBool True),
               (''comment'', PStr (''Package '' @ repr name @ '' is not installed'')),
               (''changes'', PDict [])]))"
  proof (cases "name \<in> fst ` set listed")
    case True
    with removed_present [OF listed] show ?thesis by simp
  next
    case False
    with removed_not_a_key [OF listed] show ?thesis by simp
  qed
qed

text \<open>
  With \<open>coffee-script\<close> installed, \<open>removed\<close> finds \<open>Coffee-Script\<close> absent, and
  \<open>installed\<close> finds it present.
\<close>

theorem removed_listing_asymmetry_witness:
  "salt_npm_list (scenario (coffee_script ''1.0.0'') False) [(''dir'', PNone)] =
     Inr (coffee_script ''1.0.0'') \<and>
   ''Coffee-Script'' \<notin> fst ` set (coffee_script ''1.0.0'') \<and>
   removed (scenario (coffee_script ''1.0.0'') False) ''Coffee-Script'' PNone (PStr ''node'') =
     ([Call ''npm.list'' [(''dir'', PNone)]],
      Inr [(''name'', PStr ''Coffee-Script''), (''result'', PBool True),
           (''comment'', PStr (''Package '' @ repr ''Coffee-Script'' @ '' is not installed'')),
           (''changes'', PDict [])]) \<and>
   installed (scenario (coffee_script ''1.0.0'') False) ''Coffee-Script'' None
     PNone (PStr ''node'') False PNone PNone =
     ([Call ''npm.list'' [(''dir'', PNone), (''runas'', PStr ''node''), (''env'', PNone)]],
      Inr [(''name'', PStr ''Coffee-Script''), (''result'', PBool True),
           (''comment'', PStr (''Package(s) '' @ repr ''Coffee-Script'' @
                               '' satisfied by coffee-script@1.0.0'')),
           (''changes'', PDict [])])"
proof -
  have l: "salt_npm_list (scenario (coffee_script ''1.0.0'') False) [(''dir'', PNone)] =
     Inr (coffee_script ''1.0.0'')"
    by (simp add: scenario_def returns_def)
  have a: "''Coffee-Script'' \<notin> fst ` set (coffee_script ''1.0.0'')"
    by (simp add: coffee_script_def)
  from removed_listing_asymmetry
         [of "scenario (coffee_script ''1.0.0'') False" "''Coffee-Script''" PNone
             "PStr ''node''" None False PNone PNone "coffee_script ''1.0.0''",
          THEN conjunct2, THEN conjunct2, rule_format, OF l] a
  have r: "removed (scenario (coffee_script ''1.0.0'') False) ''Coffee-Script'' PNone
             (PStr ''node'') =
     ([Call ''npm.list'' [(''dir'', PNone)]],
      Inr [(''name'', PStr ''Coffee-Script''), (''result'', PBool True),
           (''comment'', PStr (''Package '' @ repr ''Coffee-Script'' @ '' is not installed'')),
           (''changes'', PDict [])])"
    by simp
  have i: "installed (scenario (coffee_script ''1.0.0'') False) ''Coffee-Script'' None
     PNone (PStr ''node'') False PNone PNone =
     ([Call ''npm.list'' [(''dir'', PNone), (''runas'', PStr ''node''), (''env'', PNone)]],
      Inr [(''name'', PStr ''Coffee-Script''), (''result'', PBool True),
           (''comment'', PStr (''Package(s) '' @ repr ''Coffee-Script'' @
                               '' satisfied by coffee-script@1.0.0'')),
           (''changes'', PDict [])])"
    by (simp add: eval_defs)
  from l a r i show ?thesis by simp
qed

subsection \<open>bootstrap\<close>

text \<open>
  Claim C9. When \<open>npm.install\<close> returns: a false value gives \<open>result = True\<close>,
  \<open>Directory is already bootstrapped\<close> and no changes; a (non-empty) string gives
  \<open>result = False\<close> and \<open>Could not bootstrap directory\<close>; any other true value gives
  \<open>result = True\<close> with changes \<open>{name: 'Bootstrapped'}\<close>.
\<close>

theorem bootstrap_result:
  assumes "salt_npm_install g [(''dir'', PStr name), (''runas'', user), (''pkg'', PNone)]
             = Inr call"
  shows "snd (bootstrap g name user) =
     Inr (if \<not> truthy call then
            [(''name'', PStr name), (''result'', PBool True),
             (''comment'', PStr ''Directory is already bootstrapped''),
             (''changes'', PDict [])]
          else if isinstance_str call then
            [(''name'', PStr name), (''result'', PBool False),
             (''comment'', PStr ''Could not bootstrap directory''),
             (''changes'', PDict [])]
          else
            [(''name'', PStr name), (''result'', PBool True),
             (''comment'', PStr ''Directory was successfully bootstrapped''),
             (''changes'', PDict [(name, PStr ''Bootstrapped'')])])"
  using assms by (simp add: bootstrap_def new_ret_def)

theorem bootstrap_result_witness:
  "salt_npm_install unparseable_install
     [(''dir'', PStr ''/proj''), (''runas'', PNone), (''pkg'', PNone)] =
     Inr (PStr ''unparseable output'') \<and>
   snd (bootstrap unparseable_install ''/proj'' PNone) =
     Inr [(''name'', PStr ''/proj''), (''result'', PBool False),
          (''comment'', PStr ''Could not bootstrap directory''),
          (''changes'', PDict [])]"
proof -
  have i: "salt_npm_install unparseable_install
     [(''dir'', PStr ''/proj''), (''runas'', PNone), (''pkg'', PNone)] =
     Inr (PStr ''unparseable output'')"
    by (simp add: unparseable_install_def scenario_def returns_def)
  from bootstrap_result [OF i] i show ?thesis by simp
qed

end
